theory Spec2Isabelle
  imports Complex_Main "HOL-Library.Sublist"
begin

section \<open>JavaScript values used by the image worker\<close>

text \<open>
  The worker is TypeScript; at run time its option object holds JavaScript numbers and
  strings. A number is modelled as \<open>NaN\<close>, one of the two infinities, or an exact rational
  \<open>Num q\<close>. Rounding of a decimal literal to the nearest double and the sign of zero are not
  modelled: no branch of the worker depends on them (\<open>-0\<close> is falsy and prints as \<open>0\<close>).
  Strings are lists of code units below 256.
\<close>

datatype jsnum = NaN | PosInfinity | NegInfinity | Num rat

text \<open>ToBoolean on a number: \<open>NaN\<close> and zero are falsy.\<close>

fun truthy_num :: "jsnum \<Rightarrow> bool" where
  "truthy_num NaN = False"
| "truthy_num (Num q) = (q \<noteq> 0)"
| "truthy_num _ = True"

text \<open>ToBoolean on an optional property: \<open>undefined\<close> is falsy.\<close>

fun truthy_onum :: "jsnum option \<Rightarrow> bool" where
  "truthy_onum None = False"
| "truthy_onum (Some n) = truthy_num n"

fun truthy_ostr :: "string option \<Rightarrow> bool" where
  "truthy_ostr None = False"
| "truthy_ostr (Some s) = (s \<noteq> [])"

subsection \<open>String primitives\<close>

text \<open>\<open>hay.includes(needle)\<close>: \<open>needle\<close> occurs as a contiguous run of \<open>hay\<close>.\<close>

fun str_includes :: "string \<Rightarrow> string \<Rightarrow> bool" where
  "str_includes [] needle = (needle = [])"
| "str_includes (c # cs) needle = (prefix needle (c # cs) \<or> str_includes cs needle)"

text \<open>\<open>s.split(sep)\<close> for a one-character separator: never empty, \<open>''.split(',') = ['']\<close>.\<close>

fun split :: "char \<Rightarrow> string \<Rightarrow> string list" where
  "split sep [] = [[]]"
| "split sep (c # cs) =
     (if c = sep then [] # split sep cs
      else (case split sep cs of
              [] \<Rightarrow> [[c]]
            | w # ws \<Rightarrow> (c # w) # ws))"

text \<open>ASCII case folding, which is what the \<open>i\<close> flag does to the letters of the patterns below.\<close>

definition lower_char :: "char \<Rightarrow> char" where
  "lower_char c =
     (let n = (of_char c :: nat) in if 65 \<le> n \<and> n \<le> 90 then char_of (n + 32) else c)"

definition lower :: "string \<Rightarrow> string" where
  "lower s = map lower_char s"

text \<open>\<open>/p1|p2|...|pn/i.test(s)\<close> for literal alternatives \<open>p1 ... pn\<close>.\<close>

definition regex_test_i :: "string list \<Rightarrow> string \<Rightarrow> bool" where
  "regex_test_i alts s = list_ex (\<lambda>p. str_includes (lower s) (lower p)) alts"

subsection \<open>parseInt and parseFloat\<close>

definition is_white :: "char \<Rightarrow> bool" where
  "is_white c = ((of_char c :: nat) \<in> {9, 10, 11, 12, 13, 32, 160})"

text \<open>Value of a character as a digit of the given radix, if it is one.\<close>

definition digit_val :: "nat \<Rightarrow> char \<Rightarrow> nat option" where
  "digit_val radix c =
     (let n = (of_char c :: nat);
          v = (if 48 \<le> n \<and> n \<le> 57 then Some (n - 48)
               else if 97 \<le> n \<and> n \<le> 122 then Some (n - 87)
               else if 65 \<le> n \<and> n \<le> 90 then Some (n - 55)
               else None)
      in case v of None \<Rightarrow> None | Some d \<Rightarrow> if d < radix then Some d else None)"

text \<open>Reads the longest run of radix digits, most significant first.\<close>

fun read_digits :: "nat \<Rightarrow> nat \<Rightarrow> string \<Rightarrow> nat \<times> nat" where
  "read_digits radix acc [] = (acc, 0)"
| "read_digits radix acc (c # cs) =
     (case digit_val radix c of
        None \<Rightarrow> (acc, 0)
      | Some d \<Rightarrow> (let (v, k) = read_digits radix (acc * radix + d) cs in (v, Suc k)))"

text \<open>Splits an optional sign off the front: the flag is True for a minus sign.\<close>

fun take_sign :: "string \<Rightarrow> bool \<times> string" where
  "take_sign [] = (False, [])"
| "take_sign (c # cs) =
     (if c = CHR ''-'' then (True, cs)
      else if c = CHR ''+'' then (False, cs)
      else (False, c # cs))"

definition signed :: "bool \<Rightarrow> rat \<Rightarrow> rat" where
  "signed neg q = (if neg then - q else q)"

text \<open>
  \<open>parseInt(s)\<close> with no radix argument: leading white space is skipped, a sign is read, a
  \<open>0x\<close> or \<open>0X\<close> prefix selects radix 16, and the longest run of digits is the value; no digit
  at all gives \<open>NaN\<close>. Whatever follows the digits is ignored.
\<close>

definition parseInt :: "string \<Rightarrow> jsnum" where
  "parseInt s =
     (let (neg, t) = take_sign (dropWhile is_white s);
          hex = (prefix ''0x'' t \<or> prefix ''0X'' t);
          radix = (if hex then 16 else 10);
          (v, k) = read_digits radix 0 (if hex then drop 2 t else t)
      in if k = 0 then NaN else Num (signed neg (of_nat v)))"

text \<open>
  \<open>parseFloat(s)\<close>: leading white space is skipped and the longest prefix that is a decimal
  literal is the value: a sign, then \<open>Infinity\<close> or digits with an optional fraction and an
  optional exponent (an \<open>e\<close> not followed by an integer is not part of the literal). No
  such prefix gives \<open>NaN\<close>.
\<close>

definition read_exponent :: "string \<Rightarrow> int" where
  "read_exponent r =
     (case r of
        [] \<Rightarrow> 0
      | c # cs \<Rightarrow>
          if c = CHR ''e'' \<or> c = CHR ''E'' then
            (let (neg, ds) = take_sign cs; (v, k) = read_digits 10 0 ds
             in if k = 0 then 0 else (if neg then - int v else int v))
          else 0)"

definition parseFloat :: "string \<Rightarrow> jsnum" where
  "parseFloat s =
     (let (neg, t) = take_sign (dropWhile is_white s) in
      if prefix ''Infinity'' t then (if neg then NegInfinity else PosInfinity)
      else
        (let (iv, ik) = read_digits 10 0 t;
             r1 = drop ik t;
             (fv, fk) = (case r1 of
                           [] \<Rightarrow> (0, 0)
                         | c # cs \<Rightarrow> if c = CHR ''.'' then read_digits 10 0 cs else (0, 0));
             r2 = (case r1 of
                     [] \<Rightarrow> []
                   | c # cs \<Rightarrow> if c = CHR ''.'' then drop fk cs else r1);
             e = read_exponent r2;
             m = of_nat iv + of_nat fv / 10 ^ fk
         in if ik = 0 \<and> fk = 0 then NaN else Num (signed neg (m * 10 powi e))))"

section \<open>Transform options\<close>

text \<open>
  The interface \<open>ImageTransformOptions\<close>: every property is optional. The string-typed
  properties hold whatever string the request carried, since the casts of the source are
  erased at run time.
\<close>

record ImageTransformOptions =
  width :: "jsnum option"
  height :: "jsnum option"
  quality :: "jsnum option"
  format :: "string option"
  fit :: "string option"
  gravity :: "string option"
  background :: "string option"
  blur :: "jsnum option"
  brightness :: "jsnum option"
  contrast :: "jsnum option"
  gamma :: "jsnum option"
  sharpen :: "jsnum option"

definition empty_options :: ImageTransformOptions where
  "empty_options =
     \<lparr>width = None, height = None, quality = None, format = None, fit = None,
      gravity = None, background = None, blur = None, brightness = None,
      contrast = None, gamma = None, sharpen = None\<rparr>"

text \<open>
  \<open>URLSearchParams\<close> as the list of its entries: \<open>get\<close> returns the first value of a name,
  \<open>has\<close> tells whether the name occurs.
\<close>

type_synonym URLSearchParams = "(string \<times> string) list"

definition sp_get :: "URLSearchParams \<Rightarrow> string \<Rightarrow> string option" where
  "sp_get sp name = map_of sp name"

definition sp_has :: "URLSearchParams \<Rightarrow> string \<Rightarrow> bool" where
  "sp_has sp name = (map_of sp name \<noteq> None)"

text \<open>The \<open>switch\<close> of the \<open>forEach\<close> callback: one property is assigned, or none.\<close>

definition assign_option :: "string \<Rightarrow> string \<Rightarrow> ImageTransformOptions \<Rightarrow> ImageTransformOptions" where
  "assign_option key value options =
     (if key = ''width'' \<or> key = ''w'' then options\<lparr>width := Some (parseInt value)\<rparr>
      else if key = ''height'' \<or> key = ''h'' then options\<lparr>height := Some (parseInt value)\<rparr>
      else if key = ''quality'' \<or> key = ''q'' then options\<lparr>quality := Some (parseInt value)\<rparr>
      else if key = ''format'' \<or> key = ''f'' then options\<lparr>format := Some value\<rparr>
      else if key = ''fit'' then options\<lparr>fit := Some value\<rparr>
      else if key = ''gravity'' \<or> key = ''g'' then options\<lparr>gravity := Some value\<rparr>
      else if key = ''background'' \<or> key = ''bg'' then options\<lparr>background := Some value\<rparr>
      else if key = ''blur'' then options\<lparr>blur := Some (parseInt value)\<rparr>
      else if key = ''brightness'' then options\<lparr>brightness := Some (parseFloat value)\<rparr>
      else if key = ''contrast'' then options\<lparr>contrast := Some (parseFloat value)\<rparr>
      else if key = ''gamma'' then options\<lparr>gamma := Some (parseFloat value)\<rparr>
      else if key = ''sharpen'' then options\<lparr>sharpen := Some (parseFloat value)\<rparr>
      else options)"

text \<open>
  The body of the \<open>forEach\<close> callback: \<open>[key, value] = pair.split('=')\<close> takes the first two
  pieces, and the pair is skipped unless both are non-empty.
\<close>

definition apply_pair :: "ImageTransformOptions \<Rightarrow> string \<Rightarrow> ImageTransformOptions" where
  "apply_pair options pair =
     (case split CHR ''='' pair of
        key # value # _ \<Rightarrow>
          if key \<noteq> [] \<and> value \<noteq> [] then assign_option key value options else options
      | _ \<Rightarrow> options)"

text \<open>The comma-separated pairs of the \<open>transform\<close> entry, empty pieces removed.\<close>

definition transformPairs :: "URLSearchParams \<Rightarrow> string list" where
  "transformPairs sp =
     filter (\<lambda>p. p \<noteq> [])
       (split CHR '','' (case sp_get sp ''transform'' of None \<Rightarrow> [] | Some s \<Rightarrow> s))"

text \<open>
  The individual query parameters, read after the pairs. \<open>has(name)\<close> holds exactly when
  \<open>get(name)\<close> is not \<open>null\<close>, so each \<open>if (has(name)) ... get(name)!\<close> is a case
  distinction on \<open>get(name)\<close>.
\<close>

definition apply_query :: "URLSearchParams \<Rightarrow> ImageTransformOptions \<Rightarrow> ImageTransformOptions" where
  "apply_query sp options =
     (let o1 = (case sp_get sp ''width'' of None \<Rightarrow> options
                | Some v \<Rightarrow> options\<lparr>width := Some (parseInt v)\<rparr>);
          o2 = (case sp_get sp ''height'' of None \<Rightarrow> o1
                | Some v \<Rightarrow> o1\<lparr>height := Some (parseInt v)\<rparr>);
          o3 = (case sp_get sp ''quality'' of None \<Rightarrow> o2
                | Some v \<Rightarrow> o2\<lparr>quality := Some (parseInt v)\<rparr>);
          o4 = (case sp_get sp ''format'' of None \<Rightarrow> o3
                | Some v \<Rightarrow> o3\<lparr>format := Some v\<rparr>)
      in o4)"

text \<open>The defaults replace a property that is falsy: unset, \<open>NaN\<close>, zero or the empty string.\<close>

definition apply_defaults :: "ImageTransformOptions \<Rightarrow> ImageTransformOptions" where
  "apply_defaults options =
     (let o1 = (if \<not> truthy_onum (quality options) then options\<lparr>quality := Some (Num 85)\<rparr>
                else options);
          o2 = (if \<not> truthy_ostr (format o1) then o1\<lparr>format := Some ''auto''\<rparr> else o1);
          o3 = (if \<not> truthy_ostr (fit o2) then o2\<lparr>fit := Some ''scale-down''\<rparr> else o2)
      in o3)"

definition parseTransformOptions :: "URLSearchParams \<Rightarrow> ImageTransformOptions" where
  "parseTransformOptions searchParams =
     apply_defaults (apply_query searchParams
       (foldl apply_pair empty_options (transformPairs searchParams)))"

section \<open>Responsive width\<close>

text \<open>
  \<open>getResponsiveWidth(userAgent, requestedWidth?)\<close>: a truthy requested width is returned
  as it is; otherwise the user agent is classified by two case-insensitive patterns
  (\<open>device_width\<close> is the rest of the function body).
\<close>

definition device_width :: "string \<Rightarrow> jsnum" where
  "device_width userAgent =
     (let isMobile = regex_test_i [''Mobile'', ''Android'', ''iPhone'', ''iPad''] userAgent;
          isTablet = regex_test_i [''iPad'', ''Tablet''] userAgent
      in if isMobile \<and> \<not> isTablet then Num 320
         else if isTablet then Num 768
         else Num 1200)"

definition getResponsiveWidth :: "string \<Rightarrow> jsnum option \<Rightarrow> jsnum" where
  "getResponsiveWidth userAgent requestedWidth =
     (case requestedWidth of
        Some w \<Rightarrow> if truthy_num w then w else device_width userAgent
      | None \<Rightarrow> device_width userAgent)"

section \<open>The request handler\<close>

subsection \<open>Requests, responses and the bindings of the worker\<close>

type_synonym bytes = "nat list"

text \<open>
  \<open>Headers\<close>: names are case-insensitive, so the map is keyed by the lower-cased name and
  \<open>set\<close> replaces the value of a name.
\<close>

type_synonym Headers = "string \<rightharpoonup> string"

definition headers_set :: "Headers \<Rightarrow> string \<Rightarrow> string \<Rightarrow> Headers" where
  "headers_set h name v = h(lower name \<mapsto> v)"

definition headers_get :: "Headers \<Rightarrow> string \<Rightarrow> string option" where
  "headers_get h name = h (lower name)"

datatype payload = Bytes bytes | Text string

record Response =
  status :: nat
  headers :: Headers
  body :: payload

text \<open>\<open>c.text(message, code)\<close>; the headers the framework adds are not modelled.\<close>

definition c_text :: "string \<Rightarrow> nat \<Rightarrow> Response" where
  "c_text message code = \<lparr>status = code, headers = Map.empty, body = Text message\<rparr>"

text \<open>
  What the handler reads of a request: the two path parameters, the two request headers,
  and the query string of the URL (which the handler never looks at).
\<close>

record Request =
  param_options :: "string option"
  param_star :: "string option"
  header_User_Agent :: "string option"
  header_Accept :: "string option"
  query :: URLSearchParams

text \<open>
  An object of the bucket: its bytes and the content headers stored with it, which
  \<open>writeHttpMetadata\<close> copies into a \<open>Headers\<close> object.
\<close>

record R2Object =
  r2_body :: bytes
  httpMetadata :: "(string \<times> string) list"

definition writeHttpMetadata :: "R2Object \<Rightarrow> Headers \<Rightarrow> Headers" where
  "writeHttpMetadata obj h = foldl (\<lambda>acc (name, v). headers_set acc name v) h (httpMetadata obj)"

text \<open>\<open>R2_IMAGES.get(key)\<close> resolves to the object or to \<open>null\<close>, or it throws.\<close>

datatype r2_result = R2_throws | R2_null | R2_object R2Object

record ResizeOptions =
  resize_width :: "jsnum option"
  resize_height :: "jsnum option"
  resize_fit :: "string option"

record OutputOptions =
  output_quality :: "jsnum option"
  output_format :: "string option"

text \<open>
  The calls the handler makes on its bindings, in the order it makes them. A call is
  recorded when it is made, whether it returns or throws.
\<close>

datatype event =
    Get string
  | Input bytes
  | Transform ResizeOptions
  | Blur jsnum
  | Brightness jsnum
  | Contrast jsnum
  | Gamma jsnum
  | Sharpen jsnum
  | Output OutputOptions

text \<open>
  The bindings \<open>c.env\<close>. The bucket may answer the second \<open>get\<close> of a request differently
  from the first, so \<open>R2_IMAGES_get\<close> takes the number of the call within the request
  (0 for the primary fetch, 1 for the fallback). Every method of the image binding either
  returns the next image handle or throws (\<open>Inl\<close>); \<open>IMAGES_output\<close> stands for
  \<open>output(...)\<close> followed by \<open>response()\<close>. \<open>JSON_stringify\<close> is the serialiser of the
  platform.
\<close>

record 'img Env =
  R2_IMAGES_get :: "nat \<Rightarrow> string \<Rightarrow> r2_result"
  IMAGES_input :: "bytes \<Rightarrow> string + 'img"
  IMAGES_transform :: "ResizeOptions \<Rightarrow> 'img \<Rightarrow> string + 'img"
  IMAGES_blur :: "jsnum \<Rightarrow> 'img \<Rightarrow> string + 'img"
  IMAGES_brightness :: "jsnum \<Rightarrow> 'img \<Rightarrow> string + 'img"
  IMAGES_contrast :: "jsnum \<Rightarrow> 'img \<Rightarrow> string + 'img"
  IMAGES_gamma :: "jsnum \<Rightarrow> 'img \<Rightarrow> string + 'img"
  IMAGES_sharpen :: "jsnum \<Rightarrow> 'img \<Rightarrow> string + 'img"
  IMAGES_output :: "OutputOptions \<Rightarrow> 'img \<Rightarrow> string + Response"
  JSON_stringify :: "ImageTransformOptions \<Rightarrow> string"

subsection \<open>The transform pipeline\<close>

text \<open>
  The state of the \<open>try\<close> block while the image is built: the image handle, or the
  exception that was thrown, and the calls made so far. An exception skips every later
  statement of the block.
\<close>

type_synonym 'img pstate = "(string + 'img) \<times> event list"

definition call :: "('img \<Rightarrow> string + 'img) \<Rightarrow> event \<Rightarrow> 'img pstate \<Rightarrow> 'img pstate" where
  "call f ev s =
     (case s of
        (Inl e, evs) \<Rightarrow> (Inl e, evs)
      | (Inr img, evs) \<Rightarrow> (f img, evs @ [ev]))"

definition resizeOptions :: "ImageTransformOptions \<Rightarrow> ResizeOptions" where
  "resizeOptions t =
     \<lparr>resize_width = (if truthy_onum (width t) then width t else None),
      resize_height = (if truthy_onum (height t) then height t else None),
      resize_fit = (if truthy_ostr (fit t) then fit t else None)\<rparr>"

definition pipeline :: "'img Env \<Rightarrow> ImageTransformOptions \<Rightarrow> 'img pstate \<Rightarrow> 'img pstate" where
  "pipeline env t s0 =
     (let s1 = (if truthy_onum (width t) \<or> truthy_onum (height t)
                then call (IMAGES_transform env (resizeOptions t)) (Transform (resizeOptions t)) s0
                else s0);
          s2 = (case blur t of
                  Some b \<Rightarrow> if truthy_num b then call (IMAGES_blur env b) (Blur b) s1 else s1
                | None \<Rightarrow> s1);
          s3 = (case brightness t of
                  Some b \<Rightarrow> call (IMAGES_brightness env b) (Brightness b) s2
                | None \<Rightarrow> s2);
          s4 = (case contrast t of
                  Some x \<Rightarrow> call (IMAGES_contrast env x) (Contrast x) s3
                | None \<Rightarrow> s3);
          s5 = (case gamma t of
                  Some g \<Rightarrow> call (IMAGES_gamma env g) (Gamma g) s4
                | None \<Rightarrow> s4);
          s6 = (case sharpen t of
                  Some x \<Rightarrow> call (IMAGES_sharpen env x) (Sharpen x) s5
                | None \<Rightarrow> s5)
      in s6)"

subsection \<open>Output format and quality\<close>

definition outputOptions :: "ImageTransformOptions \<Rightarrow> string option \<Rightarrow> OutputOptions" where
  "outputOptions t accept =
     \<lparr>output_quality = quality t,
      output_format =
        (if format t = Some ''auto'' then
           (let acceptHeader = (case accept of None \<Rightarrow> [] | Some a \<Rightarrow> a) in
            if str_includes acceptHeader ''image/avif'' then Some ''image/avif''
            else if str_includes acceptHeader ''image/webp'' then Some ''image/webp''
            else Some ''image/jpeg'')
         else (case format t of
                 Some f \<Rightarrow> if f \<noteq> [] \<and> f \<noteq> ''auto'' then Some (''image/'' @ f) else None
               | None \<Rightarrow> None))\<rparr>"

subsection \<open>Response assembly\<close>

text \<open>
  The headers of the encoder's response are copied and four of them are set. Setting a
  header and building the \<open>Response\<close> are taken not to throw: the header values are
  strings of code units below 256, and the status is the one the encoder's response
  already carries. The \<open>cache\<close> middleware that the application registers in front of
  the handler is library code and is not part of the model.
\<close>

definition optimized_response :: "'img Env \<Rightarrow> ImageTransformOptions \<Rightarrow> Response \<Rightarrow> Response" where
  "optimized_response env t response =
     (let h0 = headers response;
          h1 = headers_set h0 ''Cache-Control'' ''public, max-age=86400, s-maxage=31536000'';
          h2 = headers_set h1 ''X-Image-Optimized'' ''true'';
          h3 = headers_set h2 ''X-Transform-Options'' (JSON_stringify env t);
          h4 = headers_set h3 ''Vary'' ''Accept, User-Agent''
      in \<lparr>status = status response, headers = h4, body = body response\<rparr>)"

subsection \<open>The try block\<close>

text \<open>
  The directive the handler works with: the path options are the only entry of a fresh
  \<open>URLSearchParams\<close>, and \<open>width\<close> is replaced when the option string contains
  \<open>width=auto\<close>.
\<close>

definition transformOptions :: "Request \<Rightarrow> ImageTransformOptions" where
  "transformOptions req =
     (let options = (case param_options req of None \<Rightarrow> [] | Some s \<Rightarrow> s);
          searchParams = [(''transform'', options)];
          t = parseTransformOptions searchParams
      in if str_includes options ''width=auto''
         then (let userAgent = (case header_User_Agent req of None \<Rightarrow> [] | Some u \<Rightarrow> u)
               in t\<lparr>width := Some (getResponsiveWidth userAgent None)\<rparr>)
         else t)"

text \<open>
  The statements of the \<open>try\<close> block after the path check. The result is the response the
  block returns, or the exception that leaves it, with the calls it made.
\<close>

definition try_block :: "'img Env \<Rightarrow> Request \<Rightarrow> string \<Rightarrow> (string + Response) \<times> event list" where
  "try_block env req imagePath =
     (let t = transformOptions req in
      case R2_IMAGES_get env 0 imagePath of
        R2_throws \<Rightarrow> (Inl ''R2 get failed'', [Get imagePath])
      | R2_null \<Rightarrow> (Inr (c_text ''Image not found'' 404), [Get imagePath])
      | R2_object originalImage \<Rightarrow>
          (let s0 = (IMAGES_input env (r2_body originalImage),
                     [Get imagePath, Input (r2_body originalImage)]);
               (r, evs) = pipeline env t s0;
               oo = outputOptions t (header_Accept req)
           in case r of
                Inl e \<Rightarrow> (Inl e, evs)
              | Inr transformedImage \<Rightarrow>
                  (case IMAGES_output env oo transformedImage of
                     Inl e \<Rightarrow> (Inl e, evs @ [Output oo])
                   | Inr response \<Rightarrow> (Inr (optimized_response env t response), evs @ [Output oo]))))"

subsection \<open>The catch block\<close>

definition fallback :: "'img Env \<Rightarrow> string \<Rightarrow> Response \<times> event list" where
  "fallback env imagePath =
     (case R2_IMAGES_get env 1 imagePath of
        R2_object originalImage \<Rightarrow>
          (let h0 = writeHttpMetadata originalImage Map.empty;
               h1 = headers_set h0 ''Cache-Control'' ''public, max-age=3600'';
               h2 = headers_set h1 ''X-Fallback'' ''original-r2''
           in (\<lparr>status = 200, headers = h2, body = Bytes (r2_body originalImage)\<rparr>,
               [Get imagePath]))
      | _ \<Rightarrow> (c_text ''Image processing failed'' 500, [Get imagePath]))"

subsection \<open>The handler of \<open>/cdn-cgi/image/:options/*\<close>\<close>

text \<open>
  Nothing before the path check can throw, so the \<open>catch\<close> block is only entered with a
  non-empty path, the one it reads again from the request.
\<close>

definition handler :: "'img Env \<Rightarrow> Request \<Rightarrow> Response \<times> event list" where
  "handler env req =
     (case param_star req of
        None \<Rightarrow> (c_text ''Image path required'' 400, [])
      | Some imagePath \<Rightarrow>
          if imagePath = [] then (c_text ''Image path required'' 400, [])
          else (case try_block env req imagePath of
                  (Inr response, evs) \<Rightarrow> (response, evs)
                | (Inl e, evs) \<Rightarrow>
                    (let (response, evs') = fallback env imagePath in (response, evs @ evs'))))"

section \<open>Notions used to state the properties\<close>

text \<open>The key of a pair is what precedes its first \<open>=\<close>; its value is what lies between the
  first \<open>=\<close> and the next one (or the end), and a pair without \<open>=\<close> has no value.\<close>

definition pair_key :: "string \<Rightarrow> string" where
  "pair_key p = takeWhile (\<lambda>c. c \<noteq> CHR ''='') p"

definition pair_value :: "string \<Rightarrow> string option" where
  "pair_value p =
     (case dropWhile (\<lambda>c. c \<noteq> CHR ''='') p of
        [] \<Rightarrow> None
      | _ # r \<Rightarrow> Some (takeWhile (\<lambda>c. c \<noteq> CHR ''='') r))"

text \<open>An option string written from its pairs: \<open>pairs.join(',')\<close>.\<close>

fun join_pairs :: "string list \<Rightarrow> string" where
  "join_pairs [] = []"
| "join_pairs [p] = p"
| "join_pairs (p # q # ps) = p @ CHR '','' # join_pairs (q # ps)"


definition recognized_keys :: "string list" where
  "recognized_keys =
     [''width'', ''w'', ''height'', ''h'', ''quality'', ''q'', ''format'', ''f'', ''fit'',
      ''gravity'', ''g'', ''background'', ''bg'', ''blur'', ''brightness'', ''contrast'',
      ''gamma'', ''sharpen'']"

text \<open>The steps of the pipeline in the order the specification lists them, each present
  only when the handler's guard for it holds.\<close>

definition pipeline_steps :: "ImageTransformOptions \<Rightarrow> event list" where
  "pipeline_steps t =
     (if truthy_onum (width t) \<or> truthy_onum (height t) then [Transform (resizeOptions t)] else [])
     @ (case blur t of Some b \<Rightarrow> if truthy_num b then [Blur b] else [] | None \<Rightarrow> [])
     @ (case brightness t of Some b \<Rightarrow> [Brightness b] | None \<Rightarrow> [])
     @ (case contrast t of Some x \<Rightarrow> [Contrast x] | None \<Rightarrow> [])
     @ (case gamma t of Some g \<Rightarrow> [Gamma g] | None \<Rightarrow> [])
     @ (case sharpen t of Some x \<Rightarrow> [Sharpen x] | None \<Rightarrow> [])"

text \<open>The position of a call in the order the specification gives for the handler.\<close>

fun step_rank :: "event \<Rightarrow> nat" where
  "step_rank (Get _) = 0"
| "step_rank (Input _) = 1"
| "step_rank (Transform _) = 2"
| "step_rank (Blur _) = 3"
| "step_rank (Brightness _) = 4"
| "step_rank (Contrast _) = 5"
| "step_rank (Gamma _) = 6"
| "step_rank (Sharpen _) = 7"
| "step_rank (Output _) = 8"

text \<open>The two device patterns of \<open>getResponsiveWidth\<close>.\<close>

definition isMobile :: "string \<Rightarrow> bool" where
  "isMobile userAgent = regex_test_i [''Mobile'', ''Android'', ''iPhone'', ''iPad''] userAgent"

definition isTablet :: "string \<Rightarrow> bool" where
  "isTablet userAgent = regex_test_i [''iPad'', ''Tablet''] userAgent"

subsection \<open>A test double of the bindings\<close>

text \<open>
  Bindings for running the handler on concrete requests: the bucket is given, an image
  call throws exactly when the predicate says so, and the encoder answers with a fixed
  response.
\<close>

definition stub_env :: "(nat \<Rightarrow> string \<Rightarrow> r2_result) \<Rightarrow> (event \<Rightarrow> bool) \<Rightarrow> unit Env" where
  "stub_env bucket throws =
     \<lparr>R2_IMAGES_get = bucket,
      IMAGES_input = (\<lambda>b. if throws (Input b) then Inl ''input'' else Inr ()),
      IMAGES_transform = (\<lambda>r _. if throws (Transform r) then Inl ''transform'' else Inr ()),
      IMAGES_blur = (\<lambda>x _. if throws (Blur x) then Inl ''blur'' else Inr ()),
      IMAGES_brightness = (\<lambda>x _. if throws (Brightness x) then Inl ''brightness'' else Inr ()),
      IMAGES_contrast = (\<lambda>x _. if throws (Contrast x) then Inl ''contrast'' else Inr ()),
      IMAGES_gamma = (\<lambda>x _. if throws (Gamma x) then Inl ''gamma'' else Inr ()),
      IMAGES_sharpen = (\<lambda>x _. if throws (Sharpen x) then Inl ''sharpen'' else Inr ()),
      IMAGES_output = (\<lambda>oo _. if throws (Output oo) then Inl ''output''
                               else Inr \<lparr>status = 200, headers = Map.empty, body = Bytes [7]\<rparr>),
      JSON_stringify = (\<lambda>t. ''{}'')\<rparr>"

definition stub_object :: R2Object where
  "stub_object = \<lparr>r2_body = [1, 2, 3], httpMetadata = [(''Content-Type'', ''image/jpeg'')]\<rparr>"

text \<open>A bucket that holds \<open>a.jpg\<close> for the first \<open>k\<close> fetches of a request only.\<close>

definition stub_bucket :: "nat \<Rightarrow> nat \<Rightarrow> string \<Rightarrow> r2_result" where
  "stub_bucket k n key = (if key = ''a.jpg'' \<and> n < k then R2_object stub_object else R2_null)"

definition stub_request :: "string \<Rightarrow> string \<Rightarrow> string \<Rightarrow> Request" where
  "stub_request opts path ua =
     \<lparr>param_options = Some opts, param_star = Some path, header_User_Agent = Some ua,
      header_Accept = Some ''image/webp,*/*'', query = []\<rparr>"

section \<open>Basic facts\<close>

lemma str_includes_sublist: "str_includes hay needle = sublist needle hay"
  by (induction hay) (simp_all add: sublist_Cons_right)

lemma lower_simps:
  "lower ''Cache-Control'' = ''cache-control''"
  "lower ''X-Fallback'' = ''x-fallback''"
  "lower ''X-Image-Optimized'' = ''x-image-optimized''"
  "lower ''X-Transform-Options'' = ''x-transform-options''"
  "lower ''Vary'' = ''vary''"
  by code_simp+

lemma headers_get_set:
  "headers_get (headers_set h n v) m = (if lower m = lower n then Some v else headers_get h m)"
  by (simp add: headers_get_def headers_set_def)

section \<open>Outcomes of the handler\<close>

lemma try_block_thrown:
  assumes "R2_IMAGES_get env 0 p = R2_object obj0"
    and "fst (pipeline env (transformOptions req)
                (IMAGES_input env (r2_body obj0), [Get p, Input (r2_body obj0)])) = Inl e
         \<or> (\<exists>img. fst (pipeline env (transformOptions req)
                         (IMAGES_input env (r2_body obj0), [Get p, Input (r2_body obj0)])) = Inr img
                  \<and> IMAGES_output env (outputOptions (transformOptions req) (header_Accept req)) img = Inl e)"
  shows "\<exists>evs. try_block env req p = (Inl e, evs)"
  using assms
  by (auto simp: try_block_def Let_def split: prod.splits sum.splits)

lemma handler_caught:
  assumes "param_star req = Some p" and "p \<noteq> []" and "try_block env req p = (Inl e, evs)"
  shows "handler env req = (fst (fallback env p), evs @ snd (fallback env p))"
  using assms by (simp add: handler_def split: prod.splits)

lemma fallback_events: "snd (fallback env p) = [Get p]"
  by (simp add: fallback_def Let_def split: r2_result.splits)

lemma fallback_found:
  assumes "R2_IMAGES_get env 1 p = R2_object obj"
  shows "status (fst (fallback env p)) = 200"
    and "body (fst (fallback env p)) = Bytes (r2_body obj)"
    and "headers_get (headers (fst (fallback env p))) ''Cache-Control'' = Some ''public, max-age=3600''"
    and "headers_get (headers (fst (fallback env p))) ''X-Fallback'' = Some ''original-r2''"
    and "lower n \<noteq> ''cache-control'' \<Longrightarrow> lower n \<noteq> ''x-fallback'' \<Longrightarrow>
         headers_get (headers (fst (fallback env p))) n = headers_get (writeHttpMetadata obj Map.empty) n"
  using assms by (simp_all add: fallback_def Let_def headers_get_set lower_simps)

lemma fallback_missing:
  assumes "R2_IMAGES_get env 1 p = R2_null \<or> R2_IMAGES_get env 1 p = R2_throws"
  shows "fst (fallback env p) = c_text ''Image processing failed'' 500"
  using assms by (auto simp: fallback_def)

text \<open>
  C1. When the primary fetch finds the object and a step of the transform (the input
  call or a pipeline call) or the encode step throws, the handler fetches the same key
  once more. If that fetch returns an object, the response has status 200, the bytes of
  that object as its body, \<open>Cache-Control: public, max-age=3600\<close>,
  \<open>X-Fallback: original-r2\<close> and otherwise the stored content headers of the object; if
  it returns nothing or throws, the response has status 500.
\<close>

theorem C1_fallback:
  assumes "param_star req = Some p" and "p \<noteq> []"
    and "R2_IMAGES_get env 0 p = R2_object obj0"
    and "fst (pipeline env (transformOptions req)
                (IMAGES_input env (r2_body obj0), [Get p, Input (r2_body obj0)])) = Inl e
         \<or> (\<exists>img. fst (pipeline env (transformOptions req)
                         (IMAGES_input env (r2_body obj0), [Get p, Input (r2_body obj0)])) = Inr img
                  \<and> IMAGES_output env (outputOptions (transformOptions req) (header_Accept req)) img = Inl e)"
  shows "snd (handler env req) = snd (try_block env req p) @ [Get p]
       \<and> (\<forall>obj. R2_IMAGES_get env 1 p = R2_object obj \<longrightarrow>
             status (fst (handler env req)) = 200
           \<and> body (fst (handler env req)) = Bytes (r2_body obj)
           \<and> headers_get (headers (fst (handler env req))) ''Cache-Control'' = Some ''public, max-age=3600''
           \<and> headers_get (headers (fst (handler env req))) ''X-Fallback'' = Some ''original-r2''
           \<and> (\<forall>n. lower n \<noteq> ''cache-control'' \<and> lower n \<noteq> ''x-fallback'' \<longrightarrow>
                 headers_get (headers (fst (handler env req))) n
                 = headers_get (writeHttpMetadata obj Map.empty) n))
       \<and> (R2_IMAGES_get env 1 p = R2_null \<or> R2_IMAGES_get env 1 p = R2_throws \<longrightarrow>
             status (fst (handler env req)) = 500)"
proof -
  obtain evs where tb: "try_block env req p = (Inl e, evs)"
    using try_block_thrown[OF assms(3,4)] by blast
  have h: "handler env req = (fst (fallback env p), evs @ [Get p])"
    using handler_caught[OF assms(1,2) tb] by (simp add: fallback_events)
  have a: "snd (handler env req) = snd (try_block env req p) @ [Get p]"
    by (simp add: h tb)
  have b: "status (fst (handler env req)) = 500"
    if "R2_IMAGES_get env 1 p = R2_null \<or> R2_IMAGES_get env 1 p = R2_throws"
    using fallback_missing[OF that] by (simp add: h c_text_def)
  show ?thesis
    using a b by (simp add: h fallback_found)
qed

text \<open>
  The blur call throws on a request for \<open>a.jpg\<close>: with the object still in the bucket the
  original bytes come back with status 200, and with the object gone at the second fetch
  the status is 500.
\<close>

theorem C1_fallback_witness:
  "status (fst (handler (stub_env (stub_bucket 2) (\<lambda>ev. ev = Blur (Num 5)))
                  (stub_request ''width=100,blur=5'' ''a.jpg'' ''x''))) = 200
   \<and> body (fst (handler (stub_env (stub_bucket 2) (\<lambda>ev. ev = Blur (Num 5)))
                  (stub_request ''width=100,blur=5'' ''a.jpg'' ''x''))) = Bytes [1, 2, 3]
   \<and> headers_get (headers (fst (handler (stub_env (stub_bucket 2) (\<lambda>ev. ev = Blur (Num 5)))
                  (stub_request ''width=100,blur=5'' ''a.jpg'' ''x'')))) ''X-Fallback''
       = Some ''original-r2''
   \<and> status (fst (handler (stub_env (stub_bucket 1) (\<lambda>ev. ev = Blur (Num 5)))
                  (stub_request ''width=100,blur=5'' ''a.jpg'' ''x''))) = 500"
proof -
  let ?req = "stub_request ''width=100,blur=5'' ''a.jpg'' ''x''"
  let ?envA = "stub_env (stub_bucket 2) (\<lambda>ev. ev = Blur (Num 5))"
  let ?envB = "stub_env (stub_bucket 1) (\<lambda>ev. ev = Blur (Num 5))"
  have h1: "param_star ?req = Some ''a.jpg''" by (simp add: stub_request_def)
  have h2: "''a.jpg'' \<noteq> []" by simp
  have h3A: "R2_IMAGES_get ?envA 0 ''a.jpg'' = R2_object stub_object"
    by (simp add: stub_env_def stub_bucket_def)
  have h3B: "R2_IMAGES_get ?envB 0 ''a.jpg'' = R2_object stub_object"
    by (simp add: stub_env_def stub_bucket_def)
  have h4A: "fst (pipeline ?envA (transformOptions ?req)
                (IMAGES_input ?envA (r2_body stub_object),
                 [Get ''a.jpg'', Input (r2_body stub_object)])) = Inl ''blur''"
    by code_simp
  have h4B: "fst (pipeline ?envB (transformOptions ?req)
                (IMAGES_input ?envB (r2_body stub_object),
                 [Get ''a.jpg'', Input (r2_body stub_object)])) = Inl ''blur''"
    by code_simp
  have h5A: "R2_IMAGES_get ?envA 1 ''a.jpg'' = R2_object stub_object"
    by (simp add: stub_env_def stub_bucket_def)
  have h5B: "R2_IMAGES_get ?envB 1 ''a.jpg'' = R2_null"
    by (simp add: stub_env_def stub_bucket_def)
  have h6: "r2_body stub_object = [1, 2, 3]" by (simp add: stub_object_def)
  show ?thesis
    using C1_fallback[OF h1 h2 h3A disjI1[OF h4A]] C1_fallback[OF h1 h2 h3B disjI1[OF h4B]]
      h5A h5B h6
    by simp
qed

text \<open>
  C2. When the primary fetch finds no object under the key, the handler answers 404 at
  once: the only call it makes is that one fetch, so no image call is made and the key is
  not fetched a second time.
\<close>

theorem C2_not_found:
  assumes "param_star req = Some p" and "p \<noteq> []" and "R2_IMAGES_get env 0 p = R2_null"
  shows "handler env req = (c_text ''Image not found'' 404, [Get p])
       \<and> status (fst (handler env req)) = 404"
  using assms by (simp add: handler_def try_block_def c_text_def)

theorem C2_not_found_witness:
  "param_star (stub_request ''width=100'' ''b.jpg'' ''x'') = Some ''b.jpg''
   \<and> R2_IMAGES_get (stub_env (stub_bucket 2) (\<lambda>_. False)) 0 ''b.jpg'' = R2_null
   \<and> handler (stub_env (stub_bucket 2) (\<lambda>_. False)) (stub_request ''width=100'' ''b.jpg'' ''x'')
       = (c_text ''Image not found'' 404, [Get ''b.jpg''])"
proof -
  have h1: "param_star (stub_request ''width=100'' ''b.jpg'' ''x'') = Some ''b.jpg''"
    by (simp add: stub_request_def)
  have h2: "''b.jpg'' \<noteq> []" by simp
  have h3: "R2_IMAGES_get (stub_env (stub_bucket 2) (\<lambda>_. False)) 0 ''b.jpg'' = R2_null"
    by (simp add: stub_env_def stub_bucket_def)
  show ?thesis using C2_not_found[OF h1 h2 h3] h1 h3 by simp
qed

lemma try_block_returned:
  assumes "R2_IMAGES_get env 0 p = R2_object obj"
    and "fst (pipeline env (transformOptions req)
                (IMAGES_input env (r2_body obj), [Get p, Input (r2_body obj)])) = Inr img"
    and "IMAGES_output env (outputOptions (transformOptions req) (header_Accept req)) img = Inr response"
  shows "\<exists>evs. try_block env req p = (Inr (optimized_response env (transformOptions req) response), evs)"
  using assms
  by (auto simp: try_block_def Let_def split: prod.splits sum.splits)

lemma handler_returned:
  assumes "param_star req = Some p" and "p \<noteq> []" and "try_block env req p = (Inr r, evs)"
  shows "handler env req = (r, evs)"
  using assms by (simp add: handler_def)

lemma optimized_response_headers:
  "headers_get (headers (optimized_response env t r)) ''Cache-Control''
     = Some ''public, max-age=86400, s-maxage=31536000''"
  "headers_get (headers (optimized_response env t r)) ''X-Image-Optimized'' = Some ''true''"
  "headers_get (headers (optimized_response env t r)) ''X-Transform-Options''
     = Some (JSON_stringify env t)"
  "headers_get (headers (optimized_response env t r)) ''Vary'' = Some ''Accept, User-Agent''"
  "lower n \<notin> {''cache-control'', ''x-image-optimized'', ''x-transform-options'', ''vary''} \<Longrightarrow>
     headers_get (headers (optimized_response env t r)) n = headers_get (headers r) n"
  "status (optimized_response env t r) = status r"
  "body (optimized_response env t r) = body r"
  by (simp_all add: optimized_response_def Let_def headers_get_set lower_simps)

text \<open>
  C8. When the fetch, the transform and the encode step all succeed, the response of the
  handler carries \<open>Cache-Control: public, max-age=86400, s-maxage=31536000\<close>,
  \<open>X-Image-Optimized: true\<close>, \<open>X-Transform-Options\<close> with the JSON text of the directive
  the handler resolved, and \<open>Vary: Accept, User-Agent\<close>; every other header, the status
  and the body are those of the encoder's response.
\<close>

theorem C8_optimized_headers:
  assumes "param_star req = Some p" and "p \<noteq> []"
    and "R2_IMAGES_get env 0 p = R2_object obj"
    and "fst (pipeline env (transformOptions req)
                (IMAGES_input env (r2_body obj), [Get p, Input (r2_body obj)])) = Inr img"
    and "IMAGES_output env (outputOptions (transformOptions req) (header_Accept req)) img = Inr response"
  shows "headers_get (headers (fst (handler env req))) ''Cache-Control''
           = Some ''public, max-age=86400, s-maxage=31536000''
       \<and> headers_get (headers (fst (handler env req))) ''X-Image-Optimized'' = Some ''true''
       \<and> headers_get (headers (fst (handler env req))) ''X-Transform-Options''
           = Some (JSON_stringify env (transformOptions req))
       \<and> headers_get (headers (fst (handler env req))) ''Vary'' = Some ''Accept, User-Agent''
       \<and> (\<forall>n. lower n \<notin> {''cache-control'', ''x-image-optimized'', ''x-transform-options'', ''vary''}
              \<longrightarrow> headers_get (headers (fst (handler env req))) n = headers_get (headers response) n)
       \<and> status (fst (handler env req)) = status response
       \<and> body (fst (handler env req)) = body response"
proof -
  obtain evs where tb:
    "try_block env req p = (Inr (optimized_response env (transformOptions req) response), evs)"
    using try_block_returned[OF assms(3,4,5)] by blast
  have h: "fst (handler env req) = optimized_response env (transformOptions req) response"
    using handler_returned[OF assms(1,2) tb] by simp
  show ?thesis
    unfolding h by (simp add: optimized_response_headers)
qed

theorem C8_optimized_headers_witness:
  "headers_get (headers (fst (handler (stub_env (stub_bucket 2) (\<lambda>_. False))
       (stub_request ''width=100,blur=5'' ''a.jpg'' ''x'')))) ''Cache-Control''
     = Some ''public, max-age=86400, s-maxage=31536000''
   \<and> headers_get (headers (fst (handler (stub_env (stub_bucket 2) (\<lambda>_. False))
       (stub_request ''width=100,blur=5'' ''a.jpg'' ''x'')))) ''Vary'' = Some ''Accept, User-Agent''
   \<and> status (fst (handler (stub_env (stub_bucket 2) (\<lambda>_. False))
       (stub_request ''width=100,blur=5'' ''a.jpg'' ''x''))) = 200"
proof -
  let ?req = "stub_request ''width=100,blur=5'' ''a.jpg'' ''x''"
  let ?env = "stub_env (stub_bucket 2) (\<lambda>_. False)"
  let ?resp = "\<lparr>status = 200, headers = Map.empty, body = Bytes [7]\<rparr>"
  have h1: "param_star ?req = Some ''a.jpg''" by (simp add: stub_request_def)
  have h2: "''a.jpg'' \<noteq> []" by simp
  have h3: "R2_IMAGES_get ?env 0 ''a.jpg'' = R2_object stub_object"
    by (simp add: stub_env_def stub_bucket_def)
  have h4: "fst (pipeline ?env (transformOptions ?req)
                (IMAGES_input ?env (r2_body stub_object),
                 [Get ''a.jpg'', Input (r2_body stub_object)])) = Inr ()"
    by code_simp
  have h5: "IMAGES_output ?env (outputOptions (transformOptions ?req) (header_Accept ?req)) () = Inr ?resp"
    by (simp add: stub_env_def)
  show ?thesis
    using C8_optimized_headers[OF h1 h2 h3 h4 h5] by simp
qed

section \<open>Format negotiation\<close>

text \<open>
  C3. A directive whose format is one of \<open>webp\<close>, \<open>avif\<close>, \<open>jpeg\<close>, \<open>png\<close> is encoded in
  that format whatever the \<open>Accept\<close> header says; a directive with format \<open>auto\<close> is
  encoded as avif when the \<open>Accept\<close> header contains \<open>image/avif\<close>, else as webp when it
  contains \<open>image/webp\<close>, else as jpeg.
\<close>

theorem C3_format_negotiation:
  "(f \<in> {''webp'', ''avif'', ''jpeg'', ''png''} \<longrightarrow>
      output_format (outputOptions (t\<lparr>format := Some f\<rparr>) accept) = Some (''image/'' @ f))
   \<and> output_format (outputOptions (t\<lparr>format := Some ''auto''\<rparr>) accept)
       = Some (if sublist ''image/avif'' (case accept of None \<Rightarrow> [] | Some a \<Rightarrow> a) then ''image/avif''
               else if sublist ''image/webp'' (case accept of None \<Rightarrow> [] | Some a \<Rightarrow> a) then ''image/webp''
               else ''image/jpeg'')"
  by (auto simp: outputOptions_def Let_def str_includes_sublist)

theorem C3_format_negotiation_witness:
  "output_format (outputOptions (empty_options\<lparr>format := Some ''png''\<rparr>) (Some ''image/avif,image/webp''))
     = Some ''image/png''"
  using C3_format_negotiation[of "''png''" empty_options "Some ''image/avif,image/webp''"] by simp

section \<open>Order of the pipeline\<close>

lemma call_inv:
  assumes "prefix (snd s) L" and "\<forall>i. fst s = Inr i \<longrightarrow> snd s = L"
  shows "prefix (snd (call f ev s)) (L @ [ev]) \<and> (\<forall>i. fst (call f ev s) = Inr i \<longrightarrow> snd (call f ev s) = L @ [ev])"
  using assms by (cases s; cases "fst s") (auto simp: call_def)

lemma stage_if_inv:
  assumes "prefix (snd s) L \<and> (\<forall>i. fst s = Inr i \<longrightarrow> snd s = L)"
  shows "prefix (snd (if c then call f ev s else s)) (L @ (if c then [ev] else []))
       \<and> (\<forall>i. fst (if c then call f ev s else s) = Inr i
              \<longrightarrow> snd (if c then call f ev s else s) = L @ (if c then [ev] else []))"
  using assms call_inv[of s L f ev] by (cases c) simp_all

lemma stage_opt_inv:
  assumes "prefix (snd s) L \<and> (\<forall>i. fst s = Inr i \<longrightarrow> snd s = L)"
  shows "prefix (snd (case x of Some b \<Rightarrow> call (f b) (ev b) s | None \<Rightarrow> s))
                (L @ (case x of Some b \<Rightarrow> [ev b] | None \<Rightarrow> []))
       \<and> (\<forall>i. fst (case x of Some b \<Rightarrow> call (f b) (ev b) s | None \<Rightarrow> s) = Inr i
              \<longrightarrow> snd (case x of Some b \<Rightarrow> call (f b) (ev b) s | None \<Rightarrow> s)
                  = L @ (case x of Some b \<Rightarrow> [ev b] | None \<Rightarrow> []))"
proof (cases x)
  case None
  then show ?thesis using assms by simp
next
  case (Some b)
  then show ?thesis using assms call_inv[of s L "f b" "ev b"] by simp
qed

lemma stage_blur_inv:
  assumes "prefix (snd s) L \<and> (\<forall>i. fst s = Inr i \<longrightarrow> snd s = L)"
  shows "prefix (snd (case x of Some b \<Rightarrow> if truthy_num b then call (f b) (ev b) s else s | None \<Rightarrow> s))
                (L @ (case x of Some b \<Rightarrow> if truthy_num b then [ev b] else [] | None \<Rightarrow> []))
       \<and> (\<forall>i. fst (case x of Some b \<Rightarrow> if truthy_num b then call (f b) (ev b) s else s | None \<Rightarrow> s) = Inr i
              \<longrightarrow> snd (case x of Some b \<Rightarrow> if truthy_num b then call (f b) (ev b) s else s | None \<Rightarrow> s)
                  = L @ (case x of Some b \<Rightarrow> if truthy_num b then [ev b] else [] | None \<Rightarrow> []))"
proof (cases x)
  case None
  then show ?thesis using assms by simp
next
  case (Some b)
  then show ?thesis using assms call_inv[of s L "f b" "ev b"] by (cases "truthy_num b") simp_all
qed

lemma pipeline_inv:
  "prefix (snd (pipeline env t (Inr img, evs0))) (evs0 @ pipeline_steps t)
   \<and> (\<forall>i. fst (pipeline env t (Inr img, evs0)) = Inr i
          \<longrightarrow> snd (pipeline env t (Inr img, evs0)) = evs0 @ pipeline_steps t)"
proof -
  let ?s0 = "(Inr img, evs0) :: 'a pstate"
  have i0: "prefix (snd ?s0) evs0 \<and> (\<forall>i. fst ?s0 = Inr i \<longrightarrow> snd ?s0 = evs0)" by simp
  note i1 = stage_if_inv[OF i0, where c = "truthy_onum (width t) \<or> truthy_onum (height t)"
      and f = "IMAGES_transform env (resizeOptions t)" and ev = "Transform (resizeOptions t)"]
  note i2 = stage_blur_inv[OF i1, where x = "blur t" and f = "IMAGES_blur env" and ev = Blur]
  note i3 = stage_opt_inv[OF i2, where x = "brightness t" and f = "IMAGES_brightness env" and ev = Brightness]
  note i4 = stage_opt_inv[OF i3, where x = "contrast t" and f = "IMAGES_contrast env" and ev = Contrast]
  note i5 = stage_opt_inv[OF i4, where x = "gamma t" and f = "IMAGES_gamma env" and ev = Gamma]
  note i6 = stage_opt_inv[OF i5, where x = "sharpen t" and f = "IMAGES_sharpen env" and ev = Sharpen]
  show ?thesis
    using i6 unfolding pipeline_def pipeline_steps_def Let_def append_assoc .
qed

lemma pipeline_steps_ordered: "sorted_wrt (<) (map step_rank (pipeline_steps t))"
  by (simp add: pipeline_steps_def split: option.splits)

lemma prefix_sorted_wrt: "prefix xs ys \<Longrightarrow> sorted_wrt P ys \<Longrightarrow> sorted_wrt P xs"
  by (auto simp: prefix_def sorted_wrt_append)

lemma pipeline_ignores_gravity_background:
  "pipeline env (t\<lparr>gravity := g, background := b\<rparr>) s = pipeline env t s"
  by (simp add: pipeline_def resizeOptions_def)

lemma pipeline_steps_members:
  "Transform r \<in> set (pipeline_steps t) \<Longrightarrow>
     (truthy_onum (width t) \<or> truthy_onum (height t)) \<and> r = resizeOptions t"
  "Blur x \<in> set (pipeline_steps t) \<Longrightarrow> blur t = Some x \<and> truthy_num x"
  "Brightness x \<in> set (pipeline_steps t) \<Longrightarrow> brightness t = Some x"
  "Contrast x \<in> set (pipeline_steps t) \<Longrightarrow> contrast t = Some x"
  "Gamma x \<in> set (pipeline_steps t) \<Longrightarrow> gamma t = Some x"
  "Sharpen x \<in> set (pipeline_steps t) \<Longrightarrow> sharpen t = Some x"
  by (auto simp: pipeline_steps_def split: option.splits if_splits)


text \<open>
  C7 (as amended). The calls the pipeline makes on an image come in the fixed order
  resize, blur, brightness, contrast, gamma, sharpen, each at most once; they are a prefix
  of the steps the directive asks for, and all of them when no call throws. A step whose
  field is unset is not called, and with neither width nor height set there is no resize
  call. The resize call receives width, height and fit only: gravity and background have
  no influence on the pipeline.
\<close>

theorem C7_pipeline_order:
  "sorted_wrt (<) (map step_rank (snd (pipeline env t (Inr img, []))))
   \<and> prefix (snd (pipeline env t (Inr img, []))) (pipeline_steps t)
   \<and> ((\<exists>i. fst (pipeline env t (Inr img, [])) = Inr i) \<longrightarrow>
         snd (pipeline env t (Inr img, [])) = pipeline_steps t)
   \<and> (width t = None \<and> height t = None \<longrightarrow>
         (\<forall>r. Transform r \<notin> set (snd (pipeline env t (Inr img, [])))))
   \<and> (blur t = None \<longrightarrow> (\<forall>x. Blur x \<notin> set (snd (pipeline env t (Inr img, [])))))
   \<and> (brightness t = None \<longrightarrow> (\<forall>x. Brightness x \<notin> set (snd (pipeline env t (Inr img, [])))))
   \<and> (contrast t = None \<longrightarrow> (\<forall>x. Contrast x \<notin> set (snd (pipeline env t (Inr img, [])))))
   \<and> (gamma t = None \<longrightarrow> (\<forall>x. Gamma x \<notin> set (snd (pipeline env t (Inr img, [])))))
   \<and> (sharpen t = None \<longrightarrow> (\<forall>x. Sharpen x \<notin> set (snd (pipeline env t (Inr img, [])))))
   \<and> (\<forall>r. Transform r \<in> set (snd (pipeline env t (Inr img, []))) \<longrightarrow>
         r = \<lparr>resize_width = (if truthy_onum (width t) then width t else None),
              resize_height = (if truthy_onum (height t) then height t else None),
              resize_fit = (if truthy_ostr (fit t) then fit t else None)\<rparr>)
   \<and> pipeline env (t\<lparr>gravity := g, background := b\<rparr>) (Inr img, []) = pipeline env t (Inr img, [])"
proof -
  let ?evs = "snd (pipeline env t (Inr img, []))"
  have pre: "prefix ?evs (pipeline_steps t)"
    and full: "(\<exists>i. fst (pipeline env t (Inr img, [])) = Inr i) \<longrightarrow> ?evs = pipeline_steps t"
    using pipeline_inv[of env t img "[]"] by auto
  have sub: "set ?evs \<subseteq> set (pipeline_steps t)"
    using pre by (rule set_mono_prefix)
  have ord: "sorted_wrt (<) (map step_rank ?evs)"
    using prefix_sorted_wrt[OF map_mono_prefix[OF pre] pipeline_steps_ordered] .
  have m1: "\<forall>r. Transform r \<notin> set ?evs" if "width t = None \<and> height t = None"
    using that sub pipeline_steps_members(1)[of _ t] by auto
  have m2: "\<forall>x. Blur x \<notin> set ?evs" if "blur t = None"
    using that sub pipeline_steps_members(2)[of _ t] by auto
  have m3: "\<forall>x. Brightness x \<notin> set ?evs" if "brightness t = None"
    using that sub pipeline_steps_members(3)[of _ t] by auto
  have m4: "\<forall>x. Contrast x \<notin> set ?evs" if "contrast t = None"
    using that sub pipeline_steps_members(4)[of _ t] by auto
  have m5: "\<forall>x. Gamma x \<notin> set ?evs" if "gamma t = None"
    using that sub pipeline_steps_members(5)[of _ t] by auto
  have m6: "\<forall>x. Sharpen x \<notin> set ?evs" if "sharpen t = None"
    using that sub pipeline_steps_members(6)[of _ t] by auto
  have m7: "\<forall>r. Transform r \<in> set ?evs \<longrightarrow>
         r = \<lparr>resize_width = (if truthy_onum (width t) then width t else None),
              resize_height = (if truthy_onum (height t) then height t else None),
              resize_fit = (if truthy_ostr (fit t) then fit t else None)\<rparr>"
    using sub pipeline_steps_members(1)[of _ t] by (auto simp: resizeOptions_def)
  show ?thesis
    using pre full ord m1 m2 m3 m4 m5 m6 m7 pipeline_ignores_gravity_background
    by blast
qed

theorem C7_pipeline_order_witness:
  "snd (pipeline (stub_env (stub_bucket 2) (\<lambda>_. False))
         (parseTransformOptions [(''transform'', ''sharpen=1,blur=5,width=100'')]) (Inr (), []))
   = [Transform \<lparr>resize_width = Some (Num 100), resize_height = None,
                 resize_fit = Some ''scale-down''\<rparr>,
      Blur (Num 5), Sharpen (Num 1)]"
proof -
  let ?env = "stub_env (stub_bucket 2) (\<lambda>_. False)"
  let ?t = "parseTransformOptions [(''transform'', ''sharpen=1,blur=5,width=100'')]"
  have "fst (pipeline ?env ?t (Inr (), [])) = Inr ()" by code_simp
  then have h1: "\<exists>i. fst (pipeline ?env ?t (Inr (), [])) = Inr i" by blast
  have h2: "pipeline_steps ?t
            = [Transform \<lparr>resize_width = Some (Num 100), resize_height = None,
                          resize_fit = Some ''scale-down''\<rparr>,
               Blur (Num 5), Sharpen (Num 1)]"
    by code_simp
  show ?thesis
    using C7_pipeline_order[of ?env ?t "()"] h1 h2 by simp
qed

text \<open>
  The claim as stated lets the resize step use gravity and background. A directive that
  sets both reaches the resize call without them: the call is the same as for the option
  string without the two pairs.
\<close>

theorem C7_counterexample:
  "gravity (parseTransformOptions
      [(''transform'', ''width=100,height=100,fit=cover,gravity=left,background=red'')]) = Some ''left''
   \<and> background (parseTransformOptions
      [(''transform'', ''width=100,height=100,fit=cover,gravity=left,background=red'')]) = Some ''red''
   \<and> snd (pipeline (stub_env (stub_bucket 2) (\<lambda>_. False))
        (parseTransformOptions
          [(''transform'', ''width=100,height=100,fit=cover,gravity=left,background=red'')])
        (Inr (), []))
     = [Transform \<lparr>resize_width = Some (Num 100), resize_height = Some (Num 100),
                   resize_fit = Some ''cover''\<rparr>]
   \<and> snd (pipeline (stub_env (stub_bucket 2) (\<lambda>_. False))
        (parseTransformOptions [(''transform'', ''width=100,height=100,fit=cover'')])
        (Inr (), []))
     = [Transform \<lparr>resize_width = Some (Num 100), resize_height = Some (Num 100),
                   resize_fit = Some ''cover''\<rparr>]"
  by code_simp

section \<open>The parser\<close>

subsection \<open>Splitting the option string\<close>

lemma split_nonempty: "split sep s \<noteq> []"
  by (induction s) (auto split: list.splits)

lemma split_no_sep: "sep \<notin> set s \<Longrightarrow> split sep s = [s]"
  by (induction s) auto

lemma split_append: "split sep (a @ sep # b) = split sep a @ split sep b"
proof (induction a)
  case Nil
  show ?case by simp
next
  case (Cons c cs)
  obtain w ws where w: "split sep cs = w # ws"
    using split_nonempty[of sep cs] by (cases "split sep cs") auto
  show ?case using Cons w by simp
qed

lemma split_head:
  "split sep s = takeWhile (\<lambda>c. c \<noteq> sep) s
                 # (case dropWhile (\<lambda>c. c \<noteq> sep) s of [] \<Rightarrow> [] | _ # r \<Rightarrow> split sep r)"
proof (induction s)
  case Nil
  show ?case by simp
next
  case (Cons c cs)
  show ?case using Cons by (cases "c = sep") simp_all
qed

lemma split_join_pairs:
  assumes "\<forall>p\<in>set ps. CHR '','' \<notin> set p" and "ps \<noteq> []"
  shows "split CHR '','' (join_pairs ps) = ps"
  using assms
proof (induction ps rule: join_pairs.induct)
  case 1
  then show ?case by simp
next
  case (2 p)
  then show ?case by (simp add: split_no_sep)
next
  case (3 p q ps)
  then show ?case by (simp add: split_append split_no_sep)
qed

lemma transformPairs_join:
  assumes "\<forall>p\<in>set ps. CHR '','' \<notin> set p"
  shows "transformPairs ((''transform'', join_pairs ps) # rest) = filter (\<lambda>p. p \<noteq> []) ps"
proof (cases "ps = []")
  case True
  then show ?thesis by (simp add: transformPairs_def sp_get_def)
next
  case False
  then show ?thesis using split_join_pairs[OF assms] by (simp add: transformPairs_def sp_get_def)
qed

subsection \<open>One pair\<close>

lemma apply_pair_key_value:
  "apply_pair options p =
     (case pair_value p of
        None \<Rightarrow> options
      | Some v \<Rightarrow> if pair_key p \<noteq> [] \<and> v \<noteq> [] then assign_option (pair_key p) v options
                  else options)"
proof (cases "dropWhile (\<lambda>c. c \<noteq> CHR ''='') p")
  case Nil
  have s: "split CHR ''='' p = [takeWhile (\<lambda>c. c \<noteq> CHR ''='') p]"
    by (subst split_head) (simp only: Nil list.case)
  show ?thesis
    by (simp only: apply_pair_def pair_value_def s Nil list.case option.case)
next
  case (Cons c r)
  have s1: "split CHR ''='' p = takeWhile (\<lambda>c. c \<noteq> CHR ''='') p # split CHR ''='' r"
    using split_head[of "CHR ''=''" p] by (simp only: Cons list.case)
  obtain rest where s2: "split CHR ''='' r = takeWhile (\<lambda>c. c \<noteq> CHR ''='') r # rest"
    using split_head[of "CHR ''=''" r] by blast
  show ?thesis
    by (simp only: apply_pair_def pair_value_def pair_key_def s1 s2 Cons list.case option.case)
qed

lemma assign_option_unrecognized:
  "key \<notin> set recognized_keys \<Longrightarrow> assign_option key v options = options"
  by (simp add: assign_option_def recognized_keys_def)

lemma apply_pair_dropped:
  assumes "pair_key p \<notin> set recognized_keys \<or> pair_value p = None \<or> pair_value p = Some []"
  shows "apply_pair options p = options"
  using assms by (auto simp: apply_pair_key_value assign_option_unrecognized split: option.splits)

subsection \<open>Fields of the parsed directive\<close>


lemma assign_option_fields:
  "width (assign_option k v options)
     = (if k = ''width'' \<or> k = ''w'' then Some (parseInt v) else width options)"
  "height (assign_option k v options)
     = (if k = ''height'' \<or> k = ''h'' then Some (parseInt v) else height options)"
  "quality (assign_option k v options)
     = (if k = ''quality'' \<or> k = ''q'' then Some (parseInt v) else quality options)"
  "format (assign_option k v options)
     = (if k = ''format'' \<or> k = ''f'' then Some v else format options)"
  "fit (assign_option k v options) = (if k = ''fit'' then Some v else fit options)"
  by (simp_all add: assign_option_def)

lemma apply_pair_fields:
  "pair_key p \<notin> {''quality'', ''q''} \<Longrightarrow> quality (apply_pair options p) = quality options"
  "pair_key p \<notin> {''format'', ''f''} \<Longrightarrow> format (apply_pair options p) = format options"
  "pair_key p \<noteq> ''fit'' \<Longrightarrow> fit (apply_pair options p) = fit options"
  by (auto simp: apply_pair_key_value assign_option_fields split: option.splits)

lemma foldl_apply_pair_quality:
  "\<forall>p\<in>set ps. pair_key p \<notin> {''quality'', ''q''} \<Longrightarrow>
     quality (foldl apply_pair options ps) = quality options"
  by (induction ps arbitrary: options) (simp_all add: apply_pair_fields)

lemma foldl_apply_pair_format:
  "\<forall>p\<in>set ps. pair_key p \<notin> {''format'', ''f''} \<Longrightarrow>
     format (foldl apply_pair options ps) = format options"
  by (induction ps arbitrary: options) (simp_all add: apply_pair_fields)

lemma foldl_apply_pair_fit:
  "\<forall>p\<in>set ps. pair_key p \<noteq> ''fit'' \<Longrightarrow>
     fit (foldl apply_pair options ps) = fit options"
  by (induction ps arbitrary: options) (simp_all add: apply_pair_fields)



lemma apply_query_fields:
  "width (apply_query sp options)
     = (case sp_get sp ''width'' of None \<Rightarrow> width options | Some v \<Rightarrow> Some (parseInt v))"
  "height (apply_query sp options)
     = (case sp_get sp ''height'' of None \<Rightarrow> height options | Some v \<Rightarrow> Some (parseInt v))"
  "quality (apply_query sp options)
     = (case sp_get sp ''quality'' of None \<Rightarrow> quality options | Some v \<Rightarrow> Some (parseInt v))"
  "format (apply_query sp options)
     = (case sp_get sp ''format'' of None \<Rightarrow> format options | Some v \<Rightarrow> Some v)"
  "fit (apply_query sp options) = fit options"
  by (simp_all add: apply_query_def Let_def split: option.splits)

lemma apply_defaults_fields:
  "quality (apply_defaults options)
     = (if truthy_onum (quality options) then quality options else Some (Num 85))"
  "format (apply_defaults options)
     = (if truthy_ostr (format options) then format options else Some ''auto'')"
  "fit (apply_defaults options)
     = (if truthy_ostr (fit options) then fit options else Some ''scale-down'')"
  "width (apply_defaults options) = width options"
  "height (apply_defaults options) = height options"
  by (simp_all add: apply_defaults_def Let_def)

lemma parse_quality_unspecified:
  assumes "\<forall>p\<in>set (transformPairs sp). pair_key p \<notin> {''quality'', ''q''}"
    and "\<not> sp_has sp ''quality''"
  shows "quality (parseTransformOptions sp) = Some (Num 85)"
  using assms
  by (simp add: parseTransformOptions_def apply_defaults_fields apply_query_fields
      foldl_apply_pair_quality sp_has_def sp_get_def empty_options_def)

lemma parse_format_unspecified:
  assumes "\<forall>p\<in>set (transformPairs sp). pair_key p \<notin> {''format'', ''f''}"
    and "\<not> sp_has sp ''format''"
  shows "format (parseTransformOptions sp) = Some ''auto''"
  using assms
  by (simp add: parseTransformOptions_def apply_defaults_fields apply_query_fields
      foldl_apply_pair_format sp_has_def sp_get_def empty_options_def)

lemma parse_fit_unspecified:
  assumes "\<forall>p\<in>set (transformPairs sp). pair_key p \<noteq> ''fit''"
  shows "fit (parseTransformOptions sp) = Some ''scale-down''"
  using assms
  by (simp add: parseTransformOptions_def apply_defaults_fields apply_query_fields
      foldl_apply_pair_fit empty_options_def)

lemma parse_defaults_set:
  "truthy_onum (quality (parseTransformOptions sp))"
  "truthy_ostr (format (parseTransformOptions sp))"
  "truthy_ostr (fit (parseTransformOptions sp))"
  by (simp_all add: parseTransformOptions_def apply_defaults_fields)


subsection \<open>Permissive parsing\<close>

lemma apply_query_skip_transform:
  "apply_query ((''transform'', s) # rest) options = apply_query rest options"
  by (simp add: apply_query_def sp_get_def)

lemma parse_transform_entry:
  "parseTransformOptions ((''transform'', s) # rest)
     = apply_defaults (apply_query rest
         (foldl apply_pair empty_options (transformPairs ((''transform'', s) # rest))))"
  by (simp add: parseTransformOptions_def apply_query_skip_transform)

lemma parse_drops_pair:
  assumes "\<forall>q\<in>set (ps1 @ p # ps2). CHR '','' \<notin> set q"
    and "pair_key p \<notin> set recognized_keys \<or> pair_value p = None \<or> pair_value p = Some []"
  shows "parseTransformOptions ((''transform'', join_pairs (ps1 @ p # ps2)) # rest)
       = parseTransformOptions ((''transform'', join_pairs (ps1 @ ps2)) # rest)"
proof -
  have c: "\<forall>q\<in>set (ps1 @ ps2). CHR '','' \<notin> set q" using assms(1) by auto
  have "foldl apply_pair empty_options (filter (\<lambda>p. p \<noteq> []) (ps1 @ p # ps2))
      = foldl apply_pair empty_options (filter (\<lambda>p. p \<noteq> []) (ps1 @ ps2))"
    using apply_pair_dropped[OF assms(2)] by simp
  then show ?thesis
    by (simp only: parse_transform_entry transformPairs_join[OF assms(1)] transformPairs_join[OF c])
qed

lemma parse_empty:
  "parseTransformOptions [(''transform'', [])]
     = empty_options\<lparr>quality := Some (Num 85), format := Some ''auto'', fit := Some ''scale-down''\<rparr>"
  by code_simp

text \<open>
  C4. \<open>parseTransformOptions\<close> is a total function with no failing branch. A pair of the
  option string whose key is not recognized, or that has no value or an empty one, has no
  effect: the result is the same as for the option string without it. Quality, format and
  fit are always set in the result, to 85, \<open>auto\<close> and \<open>scale-down\<close> when the input gives
  no pair or query parameter for them; the empty option string gives exactly these
  defaults and nothing else.
\<close>

theorem C4_permissive_parse:
  "((\<forall>q\<in>set (ps1 @ p # ps2). CHR '','' \<notin> set q)
      \<and> (pair_key p \<notin> set recognized_keys \<or> pair_value p = None \<or> pair_value p = Some [])
      \<longrightarrow> parseTransformOptions ((''transform'', join_pairs (ps1 @ p # ps2)) # rest)
          = parseTransformOptions ((''transform'', join_pairs (ps1 @ ps2)) # rest))
   \<and> truthy_onum (quality (parseTransformOptions sp))
   \<and> truthy_ostr (format (parseTransformOptions sp))
   \<and> truthy_ostr (fit (parseTransformOptions sp))
   \<and> ((\<forall>q\<in>set (transformPairs sp). pair_key q \<notin> {''quality'', ''q''}) \<and> \<not> sp_has sp ''quality''
        \<longrightarrow> quality (parseTransformOptions sp) = Some (Num 85))
   \<and> ((\<forall>q\<in>set (transformPairs sp). pair_key q \<notin> {''format'', ''f''}) \<and> \<not> sp_has sp ''format''
        \<longrightarrow> format (parseTransformOptions sp) = Some ''auto'')
   \<and> ((\<forall>q\<in>set (transformPairs sp). pair_key q \<noteq> ''fit'')
        \<longrightarrow> fit (parseTransformOptions sp) = Some ''scale-down'')
   \<and> parseTransformOptions [(''transform'', [])]
       = empty_options\<lparr>quality := Some (Num 85), format := Some ''auto'', fit := Some ''scale-down''\<rparr>"
  using parse_drops_pair[of ps1 p ps2 rest] parse_defaults_set[of sp]
    parse_quality_unspecified[of sp] parse_format_unspecified[of sp] parse_fit_unspecified[of sp]
    parse_empty
  by blast

theorem C4_permissive_parse_witness:
  "parseTransformOptions [(''transform'', ''width=320,foo=bar,height,blur=,=7,zz'')]
     = parseTransformOptions [(''transform'', ''width=320,height,blur=,=7,zz'')]
   \<and> parseTransformOptions [(''transform'', ''width=320,height,blur=,=7,zz'')]
     = parseTransformOptions [(''transform'', ''width=320,blur=,=7,zz'')]
   \<and> quality (parseTransformOptions [(''transform'', ''width=320,foo=bar,height,blur=,=7,zz'')]) = Some (Num 85)
   \<and> format (parseTransformOptions [(''transform'', ''width=320,foo=bar,height,blur=,=7,zz'')]) = Some ''auto''
   \<and> fit (parseTransformOptions [(''transform'', ''width=320,foo=bar,height,blur=,=7,zz'')]) = Some ''scale-down''"
proof -
  let ?sp = "[(''transform'', ''width=320,foo=bar,height,blur=,=7,zz'')]"
  have j1: "join_pairs ([''width=320''] @ ''foo=bar'' # [''height'', ''blur='', ''=7'', ''zz''])
            = ''width=320,foo=bar,height,blur=,=7,zz''" by simp
  have j2: "join_pairs ([''width=320''] @ [''height'', ''blur='', ''=7'', ''zz''])
            = ''width=320,height,blur=,=7,zz''" by simp
  have j3: "join_pairs ([''width=320''] @ ''height'' # [''blur='', ''=7'', ''zz''])
            = ''width=320,height,blur=,=7,zz''" by simp
  have j4: "join_pairs ([''width=320''] @ [''blur='', ''=7'', ''zz''])
            = ''width=320,blur=,=7,zz''" by simp
  have c1: "\<forall>q\<in>set ([''width=320''] @ ''foo=bar'' # [''height'', ''blur='', ''=7'', ''zz'']). CHR '','' \<notin> set q"
    by simp
  have c2: "\<forall>q\<in>set ([''width=320''] @ ''height'' # [''blur='', ''=7'', ''zz'']). CHR '','' \<notin> set q"
    by simp
  have k1: "pair_key ''foo=bar'' \<notin> set recognized_keys"
    by (simp add: pair_key_def recognized_keys_def)
  have k2: "pair_value ''height'' = None" by (simp add: pair_value_def)
  have tp: "transformPairs ?sp = [''width=320'', ''foo=bar'', ''height'', ''blur='', ''=7'', ''zz'']"
    by code_simp
  have q: "\<forall>q\<in>set (transformPairs ?sp). pair_key q \<notin> {''quality'', ''q''}"
    unfolding tp by (simp add: pair_key_def)
  have f: "\<forall>q\<in>set (transformPairs ?sp). pair_key q \<notin> {''format'', ''f''}"
    unfolding tp by (simp add: pair_key_def)
  have t: "\<forall>q\<in>set (transformPairs ?sp). pair_key q \<noteq> ''fit''"
    unfolding tp by (simp add: pair_key_def)
  have h: "\<not> sp_has ?sp ''quality''" "\<not> sp_has ?sp ''format''" by (simp_all add: sp_has_def)
  show ?thesis
    using C4_permissive_parse[of "[''width=320'']" "''foo=bar''" "[''height'', ''blur='', ''=7'', ''zz'']" "[]" ?sp]
      C4_permissive_parse[of "[''width=320'']" "''height''" "[''blur='', ''=7'', ''zz'']" "[]" ?sp]
      c1 c2 k1 k2 q f t h
    unfolding j1 j2 j3 j4 by blast
qed

subsection \<open>Quality and query parameters\<close>




lemma transformOptions_query: "transformOptions (req\<lparr>query := qs\<rparr>) = transformOptions req"
  by (simp add: transformOptions_def Let_def)

lemma try_block_query: "try_block env (req\<lparr>query := qs\<rparr>) p = try_block env req p"
  by (simp add: try_block_def transformOptions_query cong: r2_result.case_cong)

lemma handler_query: "handler env (req\<lparr>query := qs\<rparr>) = handler env req"
  by (simp add: handler_def try_block_query cong: option.case_cong if_cong)

text \<open>
  C9 (as amended). In the \<open>URLSearchParams\<close> that \<open>parseTransformOptions\<close> is given, an
  entry \<open>width\<close>, \<open>height\<close>, \<open>quality\<close> or \<open>format\<close> decides the field whatever the
  \<open>transform\<close> option string says. The handler builds that \<open>URLSearchParams\<close> from the path
  option string alone, so the query parameters of the request have no effect on the
  directive or on the response.
\<close>

theorem C9_query_parameters:
  "(sp_get sp ''width'' = Some v \<longrightarrow> width (parseTransformOptions sp) = Some (parseInt v))
   \<and> (sp_get sp ''height'' = Some v \<longrightarrow> height (parseTransformOptions sp) = Some (parseInt v))
   \<and> (sp_get sp ''quality'' = Some v \<longrightarrow>
        quality (parseTransformOptions sp)
          = (if truthy_num (parseInt v) then Some (parseInt v) else Some (Num 85)))
   \<and> (sp_get sp ''format'' = Some v \<longrightarrow>
        format (parseTransformOptions sp) = (if v \<noteq> [] then Some v else Some ''auto''))
   \<and> transformOptions (req\<lparr>query := qs\<rparr>) = transformOptions req
   \<and> handler env (req\<lparr>query := qs\<rparr>) = handler env req"
  by (simp add: parseTransformOptions_def apply_defaults_fields apply_query_fields
      transformOptions_query handler_query)

theorem C9_query_parameters_witness:
  "width (parseTransformOptions [(''transform'', ''width=100''), (''width'', ''200'')]) = Some (Num 200)"
proof -
  have h: "sp_get [(''transform'', ''width=100''), (''width'', ''200'')] ''width'' = Some ''200''"
    by (simp add: sp_get_def)
  have p: "parseInt ''200'' = Num 200" by code_simp
  show ?thesis
    using C9_query_parameters[where sp = "[(''transform'', ''width=100''), (''width'', ''200'')]"
        and v = "''200''" and req = "stub_request ''width=100'' ''a.jpg'' ''x''" and qs = "[]"
        and env = "stub_env (stub_bucket 2) (\<lambda>_. False)"] h p
    by simp
qed

text \<open>
  A request with path options \<open>width=100\<close> and query string \<open>?width=200\<close>: the directive
  of the handler has width 100.
\<close>

theorem C9_counterexample:
  "width (transformOptions
            \<lparr>param_options = Some ''width=100'', param_star = Some ''a.jpg'',
             header_User_Agent = None, header_Accept = None,
             query = [(''width'', ''200'')]\<rparr>) = Some (Num 100)"
  by code_simp

section \<open>Responsive width\<close>

lemma regex_test_i_sublist:
  "regex_test_i alts s \<longleftrightarrow> (\<exists>p\<in>set alts. sublist (lower p) (lower s))"
  by (simp add: regex_test_i_def list_ex_iff str_includes_sublist)

lemma device_width_cases:
  "device_width ua = (if isMobile ua \<and> \<not> isTablet ua then Num 320
                      else if isTablet ua then Num 768 else Num 1200)"
  by (simp add: device_width_def isMobile_def isTablet_def)

lemma transformOptions_width:
  assumes "opts = (case param_options req of None \<Rightarrow> [] | Some s \<Rightarrow> s)"
    and "ua = (case header_User_Agent req of None \<Rightarrow> [] | Some u \<Rightarrow> u)"
  shows "width (transformOptions req)
         = (if str_includes opts ''width=auto'' then Some (device_width ua)
            else width (parseTransformOptions [(''transform'', opts)]))"
  using assms by (simp add: transformOptions_def Let_def getResponsiveWidth_def)

text \<open>
  C6 (as amended). When the path option string contains \<open>width=auto\<close>, the width of the
  directive is 320 for a user agent that matches the mobile pattern and not the tablet
  pattern, 768 for one that matches the tablet pattern (also when it matches the mobile
  pattern too, as \<open>iPad\<close> does), and 1200 otherwise, whatever numeric width the string
  also gives. When the string does not contain \<open>width=auto\<close>, the width is the parsed one
  and the user agent plays no part. \<open>getResponsiveWidth\<close> itself returns a truthy requested
  width unchanged.
\<close>

theorem C6_responsive_width:
  assumes "opts = (case param_options req of None \<Rightarrow> [] | Some s \<Rightarrow> s)"
    and "ua = (case header_User_Agent req of None \<Rightarrow> [] | Some u \<Rightarrow> u)"
  shows "(str_includes opts ''width=auto'' \<longrightarrow>
            width (transformOptions req)
              = Some (if isMobile ua \<and> \<not> isTablet ua then Num 320
                      else if isTablet ua then Num 768 else Num 1200))
       \<and> (\<not> str_includes opts ''width=auto'' \<longrightarrow>
            width (transformOptions req) = width (parseTransformOptions [(''transform'', opts)]))
       \<and> (isMobile ua \<longleftrightarrow>
            (\<exists>p\<in>{''Mobile'', ''Android'', ''iPhone'', ''iPad''}. sublist (lower p) (lower ua)))
       \<and> (isTablet ua \<longleftrightarrow> (\<exists>p\<in>{''iPad'', ''Tablet''}. sublist (lower p) (lower ua)))
       \<and> (truthy_num w \<longrightarrow> getResponsiveWidth ua' (Some w) = w)
       \<and> getResponsiveWidth ua' None
           = (if isMobile ua' \<and> \<not> isTablet ua' then Num 320
              else if isTablet ua' then Num 768 else Num 1200)"
  using transformOptions_width[OF assms]
  by (simp add: device_width_cases getResponsiveWidth_def isMobile_def isTablet_def
      regex_test_i_sublist)

theorem C6_responsive_width_witness:
  "width (transformOptions (stub_request ''width=auto,quality=80'' ''a.jpg'' ''Mozilla/5.0 (iPad; CPU OS 16_0)''))
     = Some (Num 768)
   \<and> width (transformOptions (stub_request ''width=640,quality=80'' ''a.jpg'' ''Mozilla/5.0 (iPad; CPU OS 16_0)''))
     = Some (Num 640)
   \<and> getResponsiveWidth ''Mozilla/5.0 (iPad; CPU OS 16_0)'' (Some (Num 500)) = Num 500"
proof -
  let ?ua = "''Mozilla/5.0 (iPad; CPU OS 16_0)''"
  let ?r1 = "stub_request ''width=auto,quality=80'' ''a.jpg'' ?ua"
  let ?r2 = "stub_request ''width=640,quality=80'' ''a.jpg'' ?ua"
  have o1: "''width=auto,quality=80'' = (case param_options ?r1 of None \<Rightarrow> [] | Some s \<Rightarrow> s)"
    by (simp add: stub_request_def)
  have o2: "''width=640,quality=80'' = (case param_options ?r2 of None \<Rightarrow> [] | Some s \<Rightarrow> s)"
    by (simp add: stub_request_def)
  have u1: "?ua = (case header_User_Agent ?r1 of None \<Rightarrow> [] | Some u \<Rightarrow> u)"
    by (simp add: stub_request_def)
  have u2: "?ua = (case header_User_Agent ?r2 of None \<Rightarrow> [] | Some u \<Rightarrow> u)"
    by (simp add: stub_request_def)
  have a1: "str_includes ''width=auto,quality=80'' ''width=auto''" by code_simp
  have a2: "\<not> str_includes ''width=640,quality=80'' ''width=auto''" by code_simp
  have t: "isTablet ?ua" by code_simp
  have m: "isMobile ?ua" by code_simp
  have p: "width (parseTransformOptions [(''transform'', ''width=640,quality=80'')]) = Some (Num 640)"
    by code_simp
  have w: "truthy_num (Num 500)" by simp
  show ?thesis
    using C6_responsive_width[OF o1 u1, where w = "Num 500" and ua' = ?ua]
      C6_responsive_width[OF o2 u2, where w = "Num 500" and ua' = ?ua] a1 a2 t m p w
    by simp
qed

text \<open>
  The option string \<open>width=auto,width=500\<close> is parsed to the explicit width 500, and the
  handler replaces it by the width resolved from the user agent.
\<close>

theorem C6_counterexample:
  "width (parseTransformOptions [(''transform'', ''width=auto,width=500'')]) = Some (Num 500)
   \<and> width (transformOptions (stub_request ''width=auto,width=500'' ''a.jpg'' ''iPhone'')) = Some (Num 320)"
  by code_simp

section \<open>Malformed numeric values\<close>

lemma apply_pair_assign:
  assumes "pair_value p = Some v" and "v \<noteq> []" and "pair_key p \<noteq> []"
  shows "apply_pair options p = assign_option (pair_key p) v options"
  using assms by (simp add: apply_pair_key_value)

lemma pipeline_NaN_unset:
  "pipeline env (t\<lparr>width := Some NaN\<rparr>) s = pipeline env (t\<lparr>width := None\<rparr>) s"
  "pipeline env (t\<lparr>height := Some NaN\<rparr>) s = pipeline env (t\<lparr>height := None\<rparr>) s"
  "pipeline env (t\<lparr>blur := Some NaN\<rparr>) s = pipeline env (t\<lparr>blur := None\<rparr>) s"
  by (simp_all add: pipeline_def resizeOptions_def)

lemma apply_defaults_NaN_quality:
  "apply_defaults (t\<lparr>quality := Some NaN\<rparr>) = apply_defaults (t\<lparr>quality := None\<rparr>)"
  by (simp add: apply_defaults_def)

text \<open>
  C5 (as amended). A pair with a numeric key and a value that \<open>parseInt\<close> (for width,
  height, quality, blur) or \<open>parseFloat\<close> (for brightness, contrast, gamma, sharpen) maps
  to \<open>NaN\<close> does not abort the parse: it sets the field to \<open>NaN\<close>, in place of whatever
  the field held. For width, height and blur the pipeline treats \<open>NaN\<close> exactly as an
  unset field, and a \<open>NaN\<close> quality is replaced by the default.
\<close>

theorem C5_malformed_numeric:
  assumes "pair_value p = Some v" and "v \<noteq> []"
  shows "(pair_key p \<in> {''width'', ''w''} \<and> parseInt v = NaN \<longrightarrow>
            apply_pair options p = options\<lparr>width := Some NaN\<rparr>)
       \<and> (pair_key p \<in> {''height'', ''h''} \<and> parseInt v = NaN \<longrightarrow>
            apply_pair options p = options\<lparr>height := Some NaN\<rparr>)
       \<and> (pair_key p \<in> {''quality'', ''q''} \<and> parseInt v = NaN \<longrightarrow>
            apply_pair options p = options\<lparr>quality := Some NaN\<rparr>)
       \<and> (pair_key p = ''blur'' \<and> parseInt v = NaN \<longrightarrow>
            apply_pair options p = options\<lparr>blur := Some NaN\<rparr>)
       \<and> (pair_key p = ''brightness'' \<and> parseFloat v = NaN \<longrightarrow>
            apply_pair options p = options\<lparr>brightness := Some NaN\<rparr>)
       \<and> (pair_key p = ''contrast'' \<and> parseFloat v = NaN \<longrightarrow>
            apply_pair options p = options\<lparr>contrast := Some NaN\<rparr>)
       \<and> (pair_key p = ''gamma'' \<and> parseFloat v = NaN \<longrightarrow>
            apply_pair options p = options\<lparr>gamma := Some NaN\<rparr>)
       \<and> (pair_key p = ''sharpen'' \<and> parseFloat v = NaN \<longrightarrow>
            apply_pair options p = options\<lparr>sharpen := Some NaN\<rparr>)
       \<and> pipeline env (t\<lparr>width := Some NaN\<rparr>) s = pipeline env (t\<lparr>width := None\<rparr>) s
       \<and> pipeline env (t\<lparr>height := Some NaN\<rparr>) s = pipeline env (t\<lparr>height := None\<rparr>) s
       \<and> pipeline env (t\<lparr>blur := Some NaN\<rparr>) s = pipeline env (t\<lparr>blur := None\<rparr>) s
       \<and> apply_defaults (t\<lparr>quality := Some NaN\<rparr>) = apply_defaults (t\<lparr>quality := None\<rparr>)"
proof -
  have a: "apply_pair options p = assign_option (pair_key p) v options" if "pair_key p \<noteq> []"
    using apply_pair_assign[OF assms that] .
  have 1: "apply_pair options p = options\<lparr>width := Some NaN\<rparr>"
    if "pair_key p \<in> {''width'', ''w''} \<and> parseInt v = NaN"
    using that a by (auto simp: assign_option_def)
  have 2: "apply_pair options p = options\<lparr>height := Some NaN\<rparr>"
    if "pair_key p \<in> {''height'', ''h''} \<and> parseInt v = NaN"
    using that a by (auto simp: assign_option_def)
  have 3: "apply_pair options p = options\<lparr>quality := Some NaN\<rparr>"
    if "pair_key p \<in> {''quality'', ''q''} \<and> parseInt v = NaN"
    using that a by (auto simp: assign_option_def)
  have 4: "apply_pair options p = options\<lparr>blur := Some NaN\<rparr>"
    if "pair_key p = ''blur'' \<and> parseInt v = NaN"
    using that a by (auto simp: assign_option_def)
  have 5: "apply_pair options p = options\<lparr>brightness := Some NaN\<rparr>"
    if "pair_key p = ''brightness'' \<and> parseFloat v = NaN"
    using that a by (auto simp: assign_option_def)
  have 6: "apply_pair options p = options\<lparr>contrast := Some NaN\<rparr>"
    if "pair_key p = ''contrast'' \<and> parseFloat v = NaN"
    using that a by (auto simp: assign_option_def)
  have 7: "apply_pair options p = options\<lparr>gamma := Some NaN\<rparr>"
    if "pair_key p = ''gamma'' \<and> parseFloat v = NaN"
    using that a by (auto simp: assign_option_def)
  have 8: "apply_pair options p = options\<lparr>sharpen := Some NaN\<rparr>"
    if "pair_key p = ''sharpen'' \<and> parseFloat v = NaN"
    using that a by (auto simp: assign_option_def)
  show ?thesis
    using 1 2 3 4 5 6 7 8 pipeline_NaN_unset[of env t s] apply_defaults_NaN_quality[of t]
    by blast
qed

theorem C5_malformed_numeric_witness:
  "apply_pair (empty_options\<lparr>width := Some (Num 100)\<rparr>) ''width=abc''
     = empty_options\<lparr>width := Some NaN\<rparr>
   \<and> apply_pair (empty_options\<lparr>width := Some (Num 100)\<rparr>) ''brightness=xyz''
     = empty_options\<lparr>width := Some (Num 100), brightness := Some NaN\<rparr>"
proof -
  have v1: "pair_value ''width=abc'' = Some ''abc''" by (simp add: pair_value_def)
  have v2: "pair_value ''brightness=xyz'' = Some ''xyz''" by (simp add: pair_value_def)
  have n: "''abc'' \<noteq> []" "''xyz'' \<noteq> []" by simp_all
  have k1: "pair_key ''width=abc'' \<in> {''width'', ''w''}" by (simp add: pair_key_def)
  have k2: "pair_key ''brightness=xyz'' = ''brightness''" by (simp add: pair_key_def)
  have p1: "parseInt ''abc'' = NaN" by code_simp
  have p2: "parseFloat ''xyz'' = NaN" by code_simp
  have r1: "apply_pair (empty_options\<lparr>width := Some (Num 100)\<rparr>) ''width=abc''
            = (empty_options\<lparr>width := Some (Num 100)\<rparr>)\<lparr>width := Some NaN\<rparr>"
    using C5_malformed_numeric[OF v1 n(1), where options = "empty_options\<lparr>width := Some (Num 100)\<rparr>"
        and env = "stub_env (stub_bucket 2) (\<lambda>_. False)" and t = empty_options and s = "(Inr (), [])"]
      k1 p1
    by blast
  have r2: "apply_pair (empty_options\<lparr>width := Some (Num 100)\<rparr>) ''brightness=xyz''
            = (empty_options\<lparr>width := Some (Num 100)\<rparr>)\<lparr>brightness := Some NaN\<rparr>"
    using C5_malformed_numeric[OF v2 n(2), where options = "empty_options\<lparr>width := Some (Num 100)\<rparr>"
        and env = "stub_env (stub_bucket 2) (\<lambda>_. False)" and t = empty_options and s = "(Inr (), [])"]
      k2 p2
    by blast
  show ?thesis
    using r1 r2 by simp
qed

text \<open>
  \<open>brightness=xyz\<close> leaves \<open>NaN\<close> in the directive, where the empty option string leaves
  the field unset, and makes the pipeline call \<open>brightness(NaN)\<close>; \<open>width=abc\<close> after
  \<open>width=100\<close> replaces the width 100.
\<close>

theorem C5_counterexample:
  "brightness (parseTransformOptions [(''transform'', ''brightness=xyz'')]) = Some NaN
   \<and> brightness (parseTransformOptions [(''transform'', [])]) = None
   \<and> snd (pipeline (stub_env (stub_bucket 2) (\<lambda>_. False))
        (parseTransformOptions [(''transform'', ''brightness=xyz'')]) (Inr (), [])) = [Brightness NaN]
   \<and> snd (pipeline (stub_env (stub_bucket 2) (\<lambda>_. False))
        (parseTransformOptions [(''transform'', [])]) (Inr (), [])) = []
   \<and> width (parseTransformOptions [(''transform'', ''width=100,width=abc'')]) = Some NaN
   \<and> width (parseTransformOptions [(''transform'', ''width=100'')]) = Some (Num 100)"
  by code_simp

end
